theory Spec2Isabelle
  imports Complex_Main
begin

section \<open>Values of the numerical library\<close>

text \<open>
  The script \<^verbatim>\<open>steamlitstuff.py\<close> computes with Python floats (the slider values)
  and with float64 arrays (everything derived from \<^verbatim>\<open>np.linspace\<close>). Rounding is
  idealised: a finite float is a real number. The special values of float64 are kept,
  because array arithmetic never raises: a division by zero yields an infinity or a
  not-a-number and the computation goes on.
\<close>

datatype npfloat = Fin real | PosInf | NegInf | NaN

text \<open>
  The exceptions a caller could observe. The script defines and raises none itself;
  \<open>ValueError\<close> is what the array reductions \<^verbatim>\<open>min\<close> and \<^verbatim>\<open>max\<close> raise on an empty
  array, \<open>DomainError\<close> is the error the specification names.
\<close>

datatype error = ValueError | DomainError

fun is_finite :: "npfloat \<Rightarrow> bool" where
  "is_finite (Fin x) = True"
| "is_finite PosInf = False"
| "is_finite NegInf = False"
| "is_finite NaN = False"

text \<open>The infinity with the sign of \<open>s\<close>; not-a-number when \<open>s\<close> is zero.\<close>

definition signed_inf :: "real \<Rightarrow> npfloat" where
  "signed_inf s = (if 0 < s then PosInf else if s < 0 then NegInf else NaN)"

fun np_neg :: "npfloat \<Rightarrow> npfloat" where
  "np_neg (Fin x) = Fin (- x)"
| "np_neg PosInf = NegInf"
| "np_neg NegInf = PosInf"
| "np_neg NaN = NaN"

fun np_add :: "npfloat \<Rightarrow> npfloat \<Rightarrow> npfloat" where
  "np_add (Fin x) (Fin y) = Fin (x + y)"
| "np_add (Fin x) PosInf = PosInf"
| "np_add (Fin x) NegInf = NegInf"
| "np_add PosInf (Fin y) = PosInf"
| "np_add PosInf PosInf = PosInf"
| "np_add PosInf NegInf = NaN"
| "np_add NegInf (Fin y) = NegInf"
| "np_add NegInf PosInf = NaN"
| "np_add NegInf NegInf = NegInf"
| "np_add NaN b = NaN"
| "np_add a NaN = NaN"

fun np_mul :: "npfloat \<Rightarrow> npfloat \<Rightarrow> npfloat" where
  "np_mul (Fin x) (Fin y) = Fin (x * y)"
| "np_mul (Fin x) PosInf = signed_inf x"
| "np_mul (Fin x) NegInf = signed_inf (- x)"
| "np_mul PosInf (Fin y) = signed_inf y"
| "np_mul PosInf PosInf = PosInf"
| "np_mul PosInf NegInf = NegInf"
| "np_mul NegInf (Fin y) = signed_inf (- y)"
| "np_mul NegInf PosInf = NegInf"
| "np_mul NegInf NegInf = PosInf"
| "np_mul NaN b = NaN"
| "np_mul a NaN = NaN"

text \<open>
  True division of arrays. The model has one zero, the positive one: the only divisor of
  the script is the integer \<open>N\<close> converted to a float, which is never the negative zero.
\<close>

fun np_div :: "npfloat \<Rightarrow> npfloat \<Rightarrow> npfloat" where
  "np_div (Fin x) (Fin y) = (if y = 0 then signed_inf x else Fin (x / y))"
| "np_div (Fin x) PosInf = Fin 0"
| "np_div (Fin x) NegInf = Fin 0"
| "np_div PosInf (Fin y) = (if 0 \<le> y then PosInf else NegInf)"
| "np_div NegInf (Fin y) = (if 0 \<le> y then NegInf else PosInf)"
| "np_div PosInf PosInf = NaN"
| "np_div PosInf NegInf = NaN"
| "np_div NegInf PosInf = NaN"
| "np_div NegInf NegInf = NaN"
| "np_div NaN b = NaN"
| "np_div a NaN = NaN"

instantiation npfloat :: "{plus, minus, times, inverse}"
begin

definition plus_npfloat :: "npfloat \<Rightarrow> npfloat \<Rightarrow> npfloat" where
  "plus_npfloat a b = np_add a b"

definition minus_npfloat :: "npfloat \<Rightarrow> npfloat \<Rightarrow> npfloat" where
  "minus_npfloat a b = np_add a (np_neg b)"

definition times_npfloat :: "npfloat \<Rightarrow> npfloat \<Rightarrow> npfloat" where
  "times_npfloat a b = np_mul a b"

definition divide_npfloat :: "npfloat \<Rightarrow> npfloat \<Rightarrow> npfloat" where
  "divide_npfloat a b = np_div a b"

definition inverse_npfloat :: "npfloat \<Rightarrow> npfloat" where
  "inverse_npfloat a = np_div (Fin 1) a"

instance ..

end

text \<open>The comparison \<^verbatim>\<open><=\<close> of floats: false as soon as one side is not a number.\<close>

fun np_le :: "npfloat \<Rightarrow> npfloat \<Rightarrow> bool" where
  "np_le (Fin x) (Fin y) = (x \<le> y)"
| "np_le (Fin x) PosInf = True"
| "np_le (Fin x) NegInf = False"
| "np_le PosInf (Fin y) = False"
| "np_le PosInf PosInf = True"
| "np_le PosInf NegInf = False"
| "np_le NegInf (Fin y) = True"
| "np_le NegInf PosInf = True"
| "np_le NegInf NegInf = True"
| "np_le NaN b = False"
| "np_le a NaN = False"

text \<open>The comparison \<^verbatim>\<open><\<close> of floats.\<close>

fun np_lt :: "npfloat \<Rightarrow> npfloat \<Rightarrow> bool" where
  "np_lt (Fin x) (Fin y) = (x < y)"
| "np_lt (Fin x) PosInf = True"
| "np_lt (Fin x) NegInf = False"
| "np_lt PosInf b = False"
| "np_lt NegInf (Fin y) = True"
| "np_lt NegInf PosInf = True"
| "np_lt NegInf NegInf = False"
| "np_lt NaN b = False"
| "np_lt a NaN = False"

text \<open>
  \<^verbatim>\<open>np.minimum\<close> and \<^verbatim>\<open>np.maximum\<close>, the binary operations that the reductions
  \<^verbatim>\<open>ndarray.min\<close> and \<^verbatim>\<open>ndarray.max\<close> fold over an array: a not-a-number propagates.
\<close>

definition np_minimum :: "npfloat \<Rightarrow> npfloat \<Rightarrow> npfloat" where
  "np_minimum a b = (if a = NaN then a else if b = NaN then b else if np_le a b then a else b)"

definition np_maximum :: "npfloat \<Rightarrow> npfloat \<Rightarrow> npfloat" where
  "np_maximum a b = (if a = NaN then a else if b = NaN then b else if np_le b a then a else b)"

definition np_min :: "npfloat list \<Rightarrow> error + npfloat" where
  "np_min xs = (case xs of [] \<Rightarrow> Inl ValueError | x # ys \<Rightarrow> Inr (fold (\<lambda>b a. np_minimum a b) ys x))"

definition np_max :: "npfloat list \<Rightarrow> error + npfloat" where
  "np_max xs = (case xs of [] \<Rightarrow> Inl ValueError | x # ys \<Rightarrow> Inr (fold (\<lambda>b a. np_maximum a b) ys x))"

text \<open>
  \<^verbatim>\<open>np.linspace(start, stop, num)\<close> with its default \<^verbatim>\<open>endpoint=True\<close>, for finite
  \<open>start\<close> and \<open>stop\<close>: the indices \<open>0, \<dots>, num - 1\<close> are scaled by the step
  \<open>(stop - start) / (num - 1)\<close> and shifted by \<open>start\<close>, and the last entry is then
  overwritten with \<open>stop\<close> itself.
\<close>

definition linspace :: "real \<Rightarrow> real \<Rightarrow> nat \<Rightarrow> npfloat list" where
  "linspace start stop num =
     (let dv = num - 1;
          dl = stop - start;
          y = (if 0 < dv
               then (let step = dl / real dv
                     in if step = 0 then map (\<lambda>i. real i / real dv * dl) [0..<num]
                        else map (\<lambda>i. real i * step) [0..<num])
               else map (\<lambda>i. real i * dl) [0..<num]);
          y' = map (\<lambda>x. Fin (x + start)) y
      in if 1 < num then y'[num - 1 := Fin stop] else y')"

section \<open>The parameters\<close>

text \<open>
  The nine slider values of the sidebar (source lines 14 to 31). \<open>N\<close> comes from a
  slider with integer bounds and is a Python \<^verbatim>\<open>int\<close>; the others are floats.
\<close>

record ParameterSet =
  pi_param :: real
  C_op :: real
  H :: real
  v :: real
  N :: int
  a_star :: real
  beta :: real
  kappa :: real
  delta :: real

text \<open>The ranges of the sliders, which are the declared domains of the parameters.\<close>

definition valid :: "ParameterSet \<Rightarrow> bool" where
  "valid ps =
     (0 \<le> pi_param ps \<and> pi_param ps \<le> 1 \<and>
      0 \<le> C_op ps \<and> C_op ps \<le> 1 \<and>
      0 \<le> H ps \<and> H ps \<le> 50000000 \<and>
      0 \<le> v ps \<and> v ps \<le> 50000 \<and>
      1 \<le> N ps \<and> N ps \<le> 10000 \<and>
      0 \<le> a_star ps \<and> a_star ps \<le> 10 \<and>
      1 / 10 \<le> beta ps \<and> beta ps \<le> 10 \<and>
      1 / 10 \<le> kappa ps \<and> kappa ps \<le> 10 \<and>
      0 \<le> delta ps \<and> delta ps \<le> 1)"

text \<open>The values the sliders start with.\<close>

definition slider_defaults :: ParameterSet where
  "slider_defaults =
     \<lparr>pi_param = 0.23, C_op = 0.20, H = 10000000, v = 5000, N = 500,
      a_star = 1.0, beta = 1.0, kappa = 1.0, delta = 0.10\<rparr>"

section \<open>The model calculations\<close>

text \<open>
  Source lines 37 to 39: the helper functions, closures over the slider values. \<open>c\<close> and
  \<open>p\<close> are only ever applied to the float \<open>a_star\<close>; \<open>C_op_F\<close> is applied to the array
  \<open>F\<close>, elementwise.
\<close>

definition c :: "ParameterSet \<Rightarrow> real \<Rightarrow> real" where
  "c ps a = 0.5 * kappa ps * a\<^sup>2"

definition p :: "ParameterSet \<Rightarrow> real \<Rightarrow> real" where
  "p ps a = 1 - exp (- beta ps * a)"

definition C_op_F :: "ParameterSet \<Rightarrow> npfloat \<Rightarrow> npfloat" where
  "C_op_F ps Fi = Fin (H ps) + Fin (v ps) * (Fin 1 - Fi) * Fin (real_of_int (N ps))"

text \<open>Source line 42: the domain of the franchise ratio.\<close>

definition F :: "npfloat list" where
  "F = linspace 0 1 200"

text \<open>Source lines 46 to 48: the three profit curves, elementwise over \<open>F\<close>.\<close>

definition P_base :: "ParameterSet \<Rightarrow> npfloat list" where
  "P_base ps =
     map (\<lambda>Fi. (Fin 1 - Fi) * Fin (pi_param ps - C_op ps)
                + Fi * Fin (p ps (a_star ps) * pi_param ps - c ps (a_star ps))) F"

definition P_endh :: "ParameterSet \<Rightarrow> npfloat list" where
  "P_endh ps =
     map (\<lambda>Fi. (Fin 1 - Fi) * (Fin (pi_param ps) - C_op_F ps Fi / Fin (real_of_int (N ps)))
                + Fi * Fin (p ps (a_star ps) * pi_param ps - c ps (a_star ps))) F"

definition P_dup :: "ParameterSet \<Rightarrow> npfloat list" where
  "P_dup ps = map2 (\<lambda>e Fi. e - Fin (delta ps) * Fi * (Fin 1 - Fi)) (P_endh ps) F"

section \<open>The limits of the vertical axis\<close>

text \<open>Source lines 75 to 78: the two arguments handed to \<^verbatim>\<open>ax.set_ylim\<close>.\<close>

definition all_p_values :: "ParameterSet \<Rightarrow> npfloat list" where
  "all_p_values ps = P_base ps @ P_endh ps @ P_dup ps"

definition ylim :: "ParameterSet \<Rightarrow> error + (npfloat \<times> npfloat)" where
  "ylim ps =
     (case np_min (all_p_values ps) of
        Inl e \<Rightarrow> Inl e
      | Inr p_min \<Rightarrow>
          (case np_max (all_p_values ps) of
             Inl e \<Rightarrow> Inl e
           | Inr p_max \<Rightarrow>
               (let padding = (p_max - p_min) * Fin 0.1
                in Inr (p_min - padding, p_max + padding))))"

text \<open>
  One pass of the script from the slider values to what it plots: the grid, the three
  curves and the axis limits.
\<close>

record Output =
  grid :: "npfloat list"
  curve_base :: "npfloat list"
  curve_endh :: "npfloat list"
  curve_dup :: "npfloat list"
  bounds :: "npfloat \<times> npfloat"

definition evaluate :: "ParameterSet \<Rightarrow> error + Output" where
  "evaluate ps =
     (case ylim ps of
        Inl e \<Rightarrow> Inl e
      | Inr b \<Rightarrow> Inr \<lparr>grid = F, curve_base = P_base ps, curve_endh = P_endh ps,
                       curve_dup = P_dup ps, bounds = b\<rparr>)"

section \<open>Arithmetic on finite values\<close>

lemma Fin_add [simp]: "Fin x + Fin y = Fin (x + y)"
  by (simp add: plus_npfloat_def)

lemma Fin_sub [simp]: "Fin x - Fin y = Fin (x - y)"
  by (simp add: minus_npfloat_def)

lemma Fin_mul [simp]: "Fin x * Fin y = Fin (x * y)"
  by (simp add: times_npfloat_def)

lemma Fin_div [simp]: "y \<noteq> 0 \<Longrightarrow> Fin x / Fin y = Fin (x / y)"
  by (simp add: divide_npfloat_def)

lemma valid_slider_defaults: "valid slider_defaults"
  by (simp add: valid_def slider_defaults_def)

lemma valid_N: "valid ps \<Longrightarrow> N ps \<noteq> 0"
  by (auto simp: valid_def)

section \<open>The grid\<close>

lemma length_F: "length F = 200"
  by (simp add: F_def linspace_def Let_def)

lemma F_nth: "i < 200 \<Longrightarrow> F ! i = Fin (real i / 199)"
  by (cases "i = 199") (simp_all add: F_def linspace_def Let_def nth_list_update)

lemma last_F: "last F = Fin 1"
  using F_nth [of 199] by (simp add: last_conv_nth length_F flip: length_0_conv)

text \<open>
  Claim C4. The grid has exactly 200 entries, starts at 0.0, ends at 1.0 and is strictly
  increasing; its entries are evenly spaced, each 1/199 above the one before. The grid
  does not depend on the parameters, so this holds for every parameter set.
\<close>

theorem grid_linspace:
  "length F = 200 \<and> F ! 0 = Fin 0 \<and> last F = Fin 1 \<and>
   (i < j \<and> j < 200 \<longrightarrow> np_lt (F ! i) (F ! j)) \<and>
   (k < 199 \<longrightarrow> F ! Suc k - F ! k = Fin (1 / 199))"
proof (intro conjI impI)
  show "length F = 200" by (rule length_F)
  show "F ! 0 = Fin 0" using F_nth [of 0] by simp
  show "last F = Fin 1" by (rule last_F)
next
  assume "i < j \<and> j < 200"
  then show "np_lt (F ! i) (F ! j)" by (simp add: F_nth divide_strict_right_mono)
next
  assume "k < 199"
  then show "F ! Suc k - F ! k = Fin (1 / 199)"
    by (simp add: F_nth field_simps)
qed

theorem grid_linspace_witness:
  "length F = 200 \<and> F ! 0 = Fin 0 \<and> last F = Fin 1 \<and>
   np_lt (F ! 3) (F ! 4) \<and> F ! Suc 5 - F ! 5 = Fin (1 / 199)"
  using grid_linspace [of 3 4 5] by simp

section \<open>The curves, point by point\<close>

lemma length_P_base: "length (P_base ps) = 200"
  by (simp add: P_base_def length_F)

lemma length_P_endh: "length (P_endh ps) = 200"
  by (simp add: P_endh_def length_F)

lemma length_P_dup: "length (P_dup ps) = 200"
  by (simp add: P_dup_def length_P_endh length_F)

lemma P_base_nth:
  "i < 200 \<Longrightarrow> P_base ps ! i =
     Fin ((1 - real i / 199) * (pi_param ps - C_op ps)
          + real i / 199 * (p ps (a_star ps) * pi_param ps - c ps (a_star ps)))"
  by (simp add: P_base_def length_F F_nth)

lemma C_op_F_Fin: "C_op_F ps (Fin x) = Fin (H ps + v ps * (1 - x) * real_of_int (N ps))"
  by (simp add: C_op_F_def)

lemma P_endh_nth:
  "N ps \<noteq> 0 \<Longrightarrow> i < 200 \<Longrightarrow> P_endh ps ! i =
     Fin ((1 - real i / 199) *
            (pi_param ps - (H ps + v ps * (1 - real i / 199) * real_of_int (N ps)) / real_of_int (N ps))
          + real i / 199 * (p ps (a_star ps) * pi_param ps - c ps (a_star ps)))"
  by (simp add: P_endh_def length_F F_nth C_op_F_Fin)

lemma P_dup_nth_gen:
  "i < 200 \<Longrightarrow> P_dup ps ! i = P_endh ps ! i - Fin (delta ps) * F ! i * (Fin 1 - F ! i)"
  by (simp add: P_dup_def length_P_endh length_F)

text \<open>
  Claim C3. For every valid parameter set and every index \<open>i\<close> of the grid, \<open>P_dup[i]\<close>
  is \<open>P_endh[i] - delta * grid[i] * (1 - grid[i])\<close>: as the array expression of the
  source, and as an equation between the finite values of the three entries (exactly,
  hence within any tolerance).
\<close>

theorem P_dup_penalty:
  "valid ps \<Longrightarrow> i < 200 \<Longrightarrow>
   P_dup ps ! i = P_endh ps ! i - Fin (delta ps) * F ! i * (Fin 1 - F ! i) \<and>
   (\<exists>e g. P_endh ps ! i = Fin e \<and> F ! i = Fin g \<and>
      P_dup ps ! i = Fin (e - delta ps * g * (1 - g)))"
proof -
  assume v: "valid ps" and i: "i < 200"
  have "\<exists>e. P_endh ps ! i = Fin e" using P_endh_nth [OF valid_N [OF v] i] by blast
  then obtain e where e: "P_endh ps ! i = Fin e" ..
  have d: "P_dup ps ! i = P_endh ps ! i - Fin (delta ps) * F ! i * (Fin 1 - F ! i)"
    using i by (rule P_dup_nth_gen)
  have "P_dup ps ! i = Fin (e - delta ps * (real i / 199) * (1 - real i / 199))"
    using i by (simp add: d e F_nth)
  with d e F_nth [OF i] show ?thesis by blast
qed

theorem P_dup_penalty_witness:
  "valid slider_defaults \<and> (100::nat) < 200 \<and>
   P_dup slider_defaults ! 100 =
     P_endh slider_defaults ! 100 - Fin (delta slider_defaults) * F ! 100 * (Fin 1 - F ! 100)"
  using P_dup_penalty [OF valid_slider_defaults, of 100] valid_slider_defaults by simp

section \<open>End points, the penalty and the raw values\<close>

lemma last_P_base: "last (P_base ps) = P_base ps ! 199"
  by (simp add: last_conv_nth length_P_base flip: length_0_conv)

lemma last_P_endh: "last (P_endh ps) = P_endh ps ! 199"
  by (simp add: last_conv_nth length_P_endh flip: length_0_conv)

lemma P_dup_nth:
  "N ps \<noteq> 0 \<Longrightarrow> i < 200 \<Longrightarrow> P_dup ps ! i =
     Fin ((1 - real i / 199) *
            (pi_param ps - (H ps + v ps * (1 - real i / 199) * real_of_int (N ps)) / real_of_int (N ps))
          + real i / 199 * (p ps (a_star ps) * pi_param ps - c ps (a_star ps))
          - delta ps * (real i / 199) * (1 - real i / 199))"
  by (simp add: P_dup_nth_gen P_endh_nth F_nth)

text \<open>
  Claim C5. For every valid parameter set the curves take their closed-form values at
  the two ends of the grid: at \<open>F = 0\<close>, \<open>P_base[0] = pi - C_op\<close> and
  \<open>P_endh[0] = pi - (H + v * N) / N\<close>; at \<open>F = 1\<close>, the last entries of \<open>P_base\<close> and
  \<open>P_endh\<close> are both \<open>p(a_star) * pi - c(a_star)\<close>, and they do not change when \<open>H\<close>,
  \<open>v\<close> and \<open>C_op\<close> are replaced by any other values.
\<close>

theorem endpoint_values:
  "valid ps \<Longrightarrow>
   P_base ps ! 0 = Fin (pi_param ps - C_op ps) \<and>
   P_endh ps ! 0 = Fin (pi_param ps - (H ps + v ps * real_of_int (N ps)) / real_of_int (N ps)) \<and>
   last (P_base ps) = Fin (p ps (a_star ps) * pi_param ps - c ps (a_star ps)) \<and>
   last (P_endh ps) = Fin (p ps (a_star ps) * pi_param ps - c ps (a_star ps)) \<and>
   last (P_base (ps\<lparr>H := h, v := w, C_op := k\<rparr>)) = last (P_base ps) \<and>
   last (P_endh (ps\<lparr>H := h, v := w, C_op := k\<rparr>)) = last (P_endh ps)"
proof -
  assume "valid ps"
  then have n: "N ps \<noteq> 0" by (rule valid_N)
  then have n': "N (ps\<lparr>H := h, v := w, C_op := k\<rparr>) \<noteq> 0" by simp
  have b0: "P_base ps ! 0 = Fin (pi_param ps - C_op ps)"
    by (simp add: P_base_nth)
  have e0: "P_endh ps ! 0 = Fin (pi_param ps - (H ps + v ps * real_of_int (N ps)) / real_of_int (N ps))"
    using n by (simp add: P_endh_nth)
  have b1: "last (P_base qs) = Fin (p qs (a_star qs) * pi_param qs - c qs (a_star qs))" for qs
    by (simp add: last_P_base P_base_nth)
  have e1: "N qs \<noteq> 0 \<Longrightarrow> last (P_endh qs) = Fin (p qs (a_star qs) * pi_param qs - c qs (a_star qs))" for qs
    by (simp add: last_P_endh P_endh_nth)
  have b2: "last (P_base (ps\<lparr>H := h, v := w, C_op := k\<rparr>)) = last (P_base ps)"
    by (simp add: b1 p_def c_def)
  have e2: "last (P_endh (ps\<lparr>H := h, v := w, C_op := k\<rparr>)) = last (P_endh ps)"
    by (simp add: e1 [OF n] e1 [OF n'] p_def c_def)
  from b0 e0 b1 [of ps] e1 [OF n] b2 e2 show ?thesis by blast
qed

theorem endpoint_values_witness:
  "valid slider_defaults \<and>
   P_base slider_defaults ! 0 = Fin (pi_param slider_defaults - C_op slider_defaults) \<and>
   last (P_endh slider_defaults) = last (P_base slider_defaults) \<and>
   last (P_endh (slider_defaults\<lparr>H := 0, v := 50000, C_op := 1\<rparr>)) = last (P_endh slider_defaults)"
  using endpoint_values [OF valid_slider_defaults, where h = 0 and w = 50000 and k = 1] valid_slider_defaults by simp

text \<open>
  Claim C10. For every valid parameter set with \<open>delta = 0\<close>, \<open>P_dup\<close> is \<open>P_endh\<close>: the
  two arrays are equal, entry by entry, at every index of the grid and not only at its
  two ends.
\<close>

theorem zero_penalty_identity:
  "valid ps \<Longrightarrow> delta ps = 0 \<Longrightarrow>
   P_dup ps = P_endh ps \<and> (i < 200 \<longrightarrow> P_dup ps ! i = P_endh ps ! i)"
proof -
  assume v: "valid ps" and d: "delta ps = 0"
  have n: "N ps \<noteq> 0" using v by (rule valid_N)
  have nth: "P_dup ps ! j = P_endh ps ! j" if "j < 200" for j
    using that n d by (simp add: P_dup_nth P_endh_nth)
  have "P_dup ps = P_endh ps"
    by (rule nth_equalityI) (simp_all add: length_P_dup length_P_endh nth)
  with nth show ?thesis by blast
qed

theorem zero_penalty_identity_witness:
  "valid (slider_defaults\<lparr>delta := 0\<rparr>) \<and> delta (slider_defaults\<lparr>delta := 0\<rparr>) = 0 \<and>
   P_dup (slider_defaults\<lparr>delta := 0\<rparr>) = P_endh (slider_defaults\<lparr>delta := 0\<rparr>)"
proof -
  have v: "valid (slider_defaults\<lparr>delta := 0\<rparr>)"
    by (simp add: valid_def slider_defaults_def)
  have d: "delta (slider_defaults\<lparr>delta := 0\<rparr>) = 0" by simp
  from zero_penalty_identity [OF v d, of 0] v d show ?thesis by blast
qed

section \<open>Magnitudes within the slider ranges\<close>

lemma c_bounds:
  assumes "valid ps"
  shows "0 \<le> c ps (a_star ps) \<and> c ps (a_star ps) \<le> 500"
proof -
  have a: "0 \<le> a_star ps" "a_star ps \<le> 10" and k: "0 \<le> kappa ps" "kappa ps \<le> 10"
    using assms by (simp_all add: valid_def)
  have "(a_star ps)\<^sup>2 \<le> 10\<^sup>2" using a by (rule_tac power_mono) simp_all
  then have s: "(a_star ps)\<^sup>2 \<le> 100" by simp
  have "kappa ps * (a_star ps)\<^sup>2 \<le> 10 * 100"
    using k s by (rule_tac mult_mono) simp_all
  moreover have "0 \<le> kappa ps * (a_star ps)\<^sup>2" using k by simp
  ultimately show ?thesis by (simp add: c_def)
qed

lemma p_bounds:
  assumes "valid ps"
  shows "0 \<le> p ps (a_star ps) \<and> p ps (a_star ps) < 1"
proof -
  have "0 \<le> a_star ps" "0 \<le> beta ps" using assms by (simp_all add: valid_def)
  then have "0 \<le> beta ps * a_star ps" by simp
  then have "exp (- (beta ps * a_star ps)) \<le> 1" by simp
  moreover have "0 < exp (- (beta ps * a_star ps))" by simp
  ultimately show ?thesis by (simp add: p_def)
qed

lemma franchised_bounds:
  assumes "valid ps"
  shows "- 500 \<le> p ps (a_star ps) * pi_param ps - c ps (a_star ps) \<and>
         p ps (a_star ps) * pi_param ps - c ps (a_star ps) \<le> 1"
proof -
  have pi: "0 \<le> pi_param ps" "pi_param ps \<le> 1" using assms by (simp_all add: valid_def)
  have pb: "0 \<le> p ps (a_star ps)" "p ps (a_star ps) \<le> 1" using p_bounds [OF assms] by simp_all
  have "p ps (a_star ps) * pi_param ps \<le> 1 * 1"
    using pb pi by (rule_tac mult_mono) simp_all
  moreover have "0 \<le> p ps (a_star ps) * pi_param ps" using pb pi by simp
  ultimately show ?thesis using c_bounds [OF assms] by simp
qed

lemma per_outlet_cost_bounds:
  assumes "valid ps" and "0 \<le> g" and "g \<le> 1"
  shows "0 \<le> (H ps + v ps * (1 - g) * real_of_int (N ps)) / real_of_int (N ps) \<and>
         (H ps + v ps * (1 - g) * real_of_int (N ps)) / real_of_int (N ps) \<le> 50050000"
proof -
  have h: "0 \<le> H ps" "H ps \<le> 50000000" and w: "0 \<le> v ps" "v ps \<le> 50000"
    and n: "1 \<le> real_of_int (N ps)"
    using assms(1) by (simp_all add: valid_def)
  have eq: "(H ps + v ps * (1 - g) * real_of_int (N ps)) / real_of_int (N ps)
            = H ps / real_of_int (N ps) + v ps * (1 - g)"
    using n by (simp add: field_simps)
  have "H ps / real_of_int (N ps) \<le> H ps / 1"
    using h n by (rule_tac divide_left_mono) simp_all
  then have h1: "H ps / real_of_int (N ps) \<le> 50000000" using h by simp
  have h0: "0 \<le> H ps / real_of_int (N ps)" using h n by simp
  have "v ps * (1 - g) \<le> 50000 * 1"
    using w assms(2,3) by (rule_tac mult_mono) simp_all
  moreover have "0 \<le> v ps * (1 - g)" using w assms(3) by simp
  ultimately show ?thesis using h0 h1 unfolding eq by simp
qed

lemma blend_bounds:
  fixes g :: real
  assumes "0 \<le> g" "g \<le> 1" "lo \<le> a" "a \<le> hi" "lo \<le> b" "b \<le> hi"
  shows "lo \<le> (1 - g) * a + g * b \<and> (1 - g) * a + g * b \<le> hi"
proof -
  have "(1 - g) * lo \<le> (1 - g) * a" "g * lo \<le> g * b"
       "(1 - g) * a \<le> (1 - g) * hi" "g * b \<le> g * hi"
    using assms by (simp_all add: mult_left_mono)
  moreover have "(1 - g) * lo + g * lo = lo" "(1 - g) * hi + g * hi = hi"
    by (simp_all add: algebra_simps)
  ultimately show ?thesis by linarith
qed

lemma grid_unit: "i < 200 \<Longrightarrow> 0 \<le> real i / 199 \<and> real i / 199 \<le> 1"
  by simp

lemma P_base_bounds:
  assumes "valid ps" and "i < 200"
  shows "\<exists>b. P_base ps ! i = Fin b \<and> - 500 \<le> b \<and> b \<le> 1"
proof -
  have d: "- 500 \<le> pi_param ps - C_op ps" "pi_param ps - C_op ps \<le> 1"
    using assms(1) by (simp_all add: valid_def)
  have g: "0 \<le> real i / 199" "real i / 199 \<le> 1" using assms(2) by simp_all
  have q: "- 500 \<le> p ps (a_star ps) * pi_param ps - c ps (a_star ps)"
          "p ps (a_star ps) * pi_param ps - c ps (a_star ps) \<le> 1"
    using franchised_bounds [OF assms(1)] by simp_all
  show ?thesis
    unfolding P_base_nth [OF assms(2)]
    using blend_bounds [OF g d q] by blast
qed

lemma P_endh_bounds:
  assumes "valid ps" and "i < 200"
  shows "\<exists>e. P_endh ps ! i = Fin e \<and> - 50050000 \<le> e \<and> e \<le> 1"
proof -
  have g: "0 \<le> real i / 199" "real i / 199 \<le> 1" using assms(2) by simp_all
  have pi: "0 \<le> pi_param ps" "pi_param ps \<le> 1" using assms(1) by (simp_all add: valid_def)
  have d: "- 50050000 \<le> pi_param ps -
             (H ps + v ps * (1 - real i / 199) * real_of_int (N ps)) / real_of_int (N ps)"
          "pi_param ps -
             (H ps + v ps * (1 - real i / 199) * real_of_int (N ps)) / real_of_int (N ps) \<le> 1"
    using per_outlet_cost_bounds [OF assms(1) g] pi by linarith+
  have q: "- 50050000 \<le> p ps (a_star ps) * pi_param ps - c ps (a_star ps)"
          "p ps (a_star ps) * pi_param ps - c ps (a_star ps) \<le> 1"
    using franchised_bounds [OF assms(1)] by simp_all
  show ?thesis
    unfolding P_endh_nth [OF valid_N [OF assms(1)] assms(2)]
    using blend_bounds [OF g d q] by blast
qed

lemma penalty_bounds:
  assumes "valid ps" and "i < 200"
  shows "0 \<le> delta ps * (real i / 199) * (1 - real i / 199) \<and>
         delta ps * (real i / 199) * (1 - real i / 199) \<le> 1"
proof -
  have g: "0 \<le> real i / 199" "real i / 199 \<le> 1" using assms(2) by simp_all
  have dl: "0 \<le> delta ps" "delta ps \<le> 1" using assms(1) by (simp_all add: valid_def)
  have "delta ps * (real i / 199) \<le> 1 * 1" using dl g by (rule_tac mult_mono) simp_all
  then have a: "delta ps * (real i / 199) \<le> 1" by simp
  have b: "0 \<le> delta ps * (real i / 199)" using dl g by simp
  have "delta ps * (real i / 199) * (1 - real i / 199) \<le> 1 * 1"
    using a b g by (rule_tac mult_mono) simp_all
  moreover have "0 \<le> delta ps * (real i / 199) * (1 - real i / 199)" using b g by simp
  ultimately show ?thesis by simp
qed

lemma P_dup_bounds:
  assumes "valid ps" and "i < 200"
  shows "\<exists>d. P_dup ps ! i = Fin d \<and> - 50050001 \<le> d \<and> d \<le> 1"
proof -
  obtain e where e: "P_endh ps ! i = Fin e" "- 50050000 \<le> e" "e \<le> 1"
    using P_endh_bounds [OF assms] by blast
  have "P_dup ps ! i = Fin (e - delta ps * (real i / 199) * (1 - real i / 199))"
    using assms(2) by (simp add: P_dup_nth_gen e F_nth)
  then show ?thesis using e penalty_bounds [OF assms] by auto
qed





text \<open>
  Claim C9. For every valid parameter set and every index \<open>i\<close> of the grid, each of the
  three curves is the raw closed-form expression at \<open>F = i / 199\<close>, with no maximum with
  zero anywhere; and the curves do go negative: with the slider defaults each of the
  three has a negative entry.
\<close>

theorem no_clamping:
  "valid ps \<Longrightarrow> i < 200 \<Longrightarrow>
   P_base ps ! i =
     Fin ((1 - real i / 199) * (pi_param ps - C_op ps)
          + real i / 199 * ((1 - exp (- beta ps * a_star ps)) * pi_param ps
                            - 0.5 * kappa ps * (a_star ps)\<^sup>2)) \<and>
   P_endh ps ! i =
     Fin ((1 - real i / 199) *
            (pi_param ps - (H ps + v ps * (1 - real i / 199) * real_of_int (N ps)) / real_of_int (N ps))
          + real i / 199 * ((1 - exp (- beta ps * a_star ps)) * pi_param ps
                            - 0.5 * kappa ps * (a_star ps)\<^sup>2)) \<and>
   P_dup ps ! i =
     Fin ((1 - real i / 199) *
            (pi_param ps - (H ps + v ps * (1 - real i / 199) * real_of_int (N ps)) / real_of_int (N ps))
          + real i / 199 * ((1 - exp (- beta ps * a_star ps)) * pi_param ps
                            - 0.5 * kappa ps * (a_star ps)\<^sup>2)
          - delta ps * (real i / 199) * (1 - real i / 199)) \<and>
   (\<exists>x y z. P_base slider_defaults ! 199 = Fin x \<and> x < 0 \<and>
            P_endh slider_defaults ! 0 = Fin y \<and> y < 0 \<and>
            P_dup slider_defaults ! 100 = Fin z \<and> z < 0)"
proof -
  assume v: "valid ps" and i: "i < 200"
  have n: "N ps \<noteq> 0" using v by (rule valid_N)
  have a: "P_base ps ! i =
     Fin ((1 - real i / 199) * (pi_param ps - C_op ps)
          + real i / 199 * ((1 - exp (- beta ps * a_star ps)) * pi_param ps
                            - 0.5 * kappa ps * (a_star ps)\<^sup>2))"
    using P_base_nth [OF i, of ps] by (simp add: p_def c_def)
  have b: "P_endh ps ! i =
     Fin ((1 - real i / 199) *
            (pi_param ps - (H ps + v ps * (1 - real i / 199) * real_of_int (N ps)) / real_of_int (N ps))
          + real i / 199 * ((1 - exp (- beta ps * a_star ps)) * pi_param ps
                            - 0.5 * kappa ps * (a_star ps)\<^sup>2))"
    using P_endh_nth [OF n i] by (simp add: p_def c_def)
  have c: "P_dup ps ! i =
     Fin ((1 - real i / 199) *
            (pi_param ps - (H ps + v ps * (1 - real i / 199) * real_of_int (N ps)) / real_of_int (N ps))
          + real i / 199 * ((1 - exp (- beta ps * a_star ps)) * pi_param ps
                            - 0.5 * kappa ps * (a_star ps)\<^sup>2)
          - delta ps * (real i / 199) * (1 - real i / 199))"
    using P_dup_nth [OF n i] by (simp add: p_def c_def)
  have nd: "N slider_defaults \<noteq> 0" by (simp add: slider_defaults_def)
  have e1: "exp (- 1 :: real) \<le> 1" by simp
  have x: "P_base slider_defaults ! 199 = Fin ((1 - exp (- 1)) * 0.23 - 0.5)"
    using P_base_nth [of 199 slider_defaults] by (simp add: p_def c_def slider_defaults_def)
  have neg: "(1 - E) * 0.23 - 0.5 < 0" if "0 \<le> E" for E :: real
    using that by simp
  have xn: "(1 - exp (- 1 :: real)) * 0.23 - 0.5 < 0"
    by (rule neg) simp
  have y: "P_endh slider_defaults ! 0 = Fin (0.23 - 25000)"
    using P_endh_nth [OF nd, of 0] by (simp add: slider_defaults_def)
  have z: "\<exists>z. P_dup slider_defaults ! 100 = Fin z \<and> z < 0"
  proof -
    have eq: "P_dup slider_defaults ! 100 =
        Fin (99 / 199 * (0.23 - (10000000 + 5000 * (99 / 199) * 500) / 500)
             + 100 / 199 * ((1 - exp (- 1)) * 0.23 - 0.5) - 0.10 * (100 / 199) * (99 / 199))"
      using P_dup_nth [OF nd, of 100] by (simp add: p_def c_def slider_defaults_def)
    have ng: "99 / 199 * (0.23 - (10000000 + 5000 * (99 / 199) * 500) / 500)
             + 100 / 199 * ((1 - E) * 0.23 - 0.5) - 0.10 * (100 / 199) * (99 / 199) < 0"
      if "0 \<le> E" for E :: real
      using that by simp
    have "99 / 199 * (0.23 - (10000000 + 5000 * (99 / 199) * 500) / 500)
             + 100 / 199 * ((1 - exp (- 1)) * 0.23 - 0.5) - 0.10 * (100 / 199) * (99 / 199) < (0::real)"
      by (rule ng) simp
    with eq show ?thesis by blast
  qed
  from x xn y z have "\<exists>x y z. P_base slider_defaults ! 199 = Fin x \<and> x < 0 \<and>
            P_endh slider_defaults ! 0 = Fin y \<and> y < 0 \<and>
            P_dup slider_defaults ! 100 = Fin z \<and> z < 0"
    by auto
  with a b c show ?thesis by blast
qed

theorem no_clamping_witness:
  "valid slider_defaults \<and> (0::nat) < 200 \<and>
   P_endh slider_defaults ! 0 = Fin (0.23 - 25000) \<and>
   P_base slider_defaults ! 0 = Fin 0.03"
  using no_clamping [OF valid_slider_defaults, of 0] valid_slider_defaults
  by (simp add: slider_defaults_def)

section \<open>The axis limits\<close>

lemma np_minimum_Fin: "np_minimum (Fin a) (Fin b) = Fin (min a b)"
  by (simp add: np_minimum_def min_def)

lemma np_maximum_Fin: "np_maximum (Fin a) (Fin b) = Fin (max a b)"
  by (auto simp: np_maximum_def max_def)

lemma fold_np_minimum_Fin:
  "fold (\<lambda>b a. np_minimum a b) (map Fin rs) (Fin r) = Fin (fold min rs r)"
  by (induction rs arbitrary: r) (simp_all add: np_minimum_Fin min.commute)

lemma fold_np_maximum_Fin:
  "fold (\<lambda>b a. np_maximum a b) (map Fin rs) (Fin r) = Fin (fold max rs r)"
  by (induction rs arbitrary: r) (simp_all add: np_maximum_Fin max.commute)

lemma np_min_Fin: "rs \<noteq> [] \<Longrightarrow> np_min (map Fin rs) = Inr (Fin (Min (set rs)))"
  by (cases rs) (simp_all add: np_min_def fold_np_minimum_Fin Min.set_eq_fold del: set_simps)

lemma np_max_Fin: "rs \<noteq> [] \<Longrightarrow> np_max (map Fin rs) = Inr (Fin (Max (set rs)))"
  by (cases rs) (simp_all add: np_max_def fold_np_maximum_Fin Max.set_eq_fold del: set_simps)

lemma finite_list: "\<forall>x\<in>set xs. is_finite x \<Longrightarrow> \<exists>rs. xs = map Fin rs"
proof (induction xs)
  case Nil
  then show ?case by simp
next
  case (Cons x xs)
  then obtain rs where rs: "xs = map Fin rs" by auto
  from Cons.prems obtain r where "x = Fin r" by (cases x) auto
  with rs have "x # xs = map Fin (r # rs)" by simp
  then show ?case by (rule exI)
qed

lemma length_all_p_values: "length (all_p_values ps) = 600"
  by (simp add: all_p_values_def length_P_base length_P_endh length_P_dup)

lemma set_all_p_values:
  "x \<in> set (all_p_values ps) \<longleftrightarrow>
     (\<exists>i<200. x = P_base ps ! i \<or> x = P_endh ps ! i \<or> x = P_dup ps ! i)"
  by (auto simp: all_p_values_def in_set_conv_nth length_P_base length_P_endh length_P_dup)

lemma all_p_values_finite:
  assumes "N ps \<noteq> 0" and "x \<in> set (all_p_values ps)"
  shows "is_finite x"
proof -
  from assms(2) obtain i where i: "i < 200"
    and x: "x = P_base ps ! i \<or> x = P_endh ps ! i \<or> x = P_dup ps ! i"
    unfolding set_all_p_values by blast
  from x show ?thesis
    using P_base_nth [OF i, of ps] P_endh_nth [OF assms(1) i] P_dup_nth [OF assms(1) i]
    by auto
qed

lemma ylim_Fin:
  assumes "N ps \<noteq> 0"
  shows "\<exists>rs. all_p_values ps = map Fin rs \<and> rs \<noteq> [] \<and>
           np_min (all_p_values ps) = Inr (Fin (Min (set rs))) \<and>
           np_max (all_p_values ps) = Inr (Fin (Max (set rs))) \<and>
           ylim ps = Inr (Fin (Min (set rs) - (Max (set rs) - Min (set rs)) * 0.1),
                          Fin (Max (set rs) + (Max (set rs) - Min (set rs)) * 0.1))"
proof -
  have "\<forall>x\<in>set (all_p_values ps). is_finite x"
    using all_p_values_finite [OF assms] by blast
  then obtain rs where rs: "all_p_values ps = map Fin rs"
    using finite_list by blast
  have "length rs = 600" using length_all_p_values [of ps] by (simp add: rs)
  then have ne: "rs \<noteq> []" by auto
  have mn: "np_min (all_p_values ps) = Inr (Fin (Min (set rs)))"
    by (simp add: rs np_min_Fin [OF ne])
  have mx: "np_max (all_p_values ps) = Inr (Fin (Max (set rs)))"
    by (simp add: rs np_max_Fin [OF ne])
  have "ylim ps = Inr (Fin (Min (set rs) - (Max (set rs) - Min (set rs)) * 0.1),
                      Fin (Max (set rs) + (Max (set rs) - Min (set rs)) * 0.1))"
    by (simp add: ylim_def mn mx Let_def)
  with rs ne mn mx show ?thesis by blast
qed



lemma ylim_extremes:
  assumes "N ps \<noteq> 0"
  shows "\<exists>lo hi. np_min (all_p_values ps) = Inr (Fin lo) \<and>
                 np_max (all_p_values ps) = Inr (Fin hi) \<and>
                 Fin lo \<in> set (all_p_values ps) \<and> Fin hi \<in> set (all_p_values ps) \<and>
                 (\<forall>x. Fin x \<in> set (all_p_values ps) \<longrightarrow> lo \<le> x \<and> x \<le> hi) \<and>
                 ylim ps = Inr (Fin (lo - (hi - lo) * 0.1), Fin (hi + (hi - lo) * 0.1))"
proof -
  obtain rs where rs: "all_p_values ps = map Fin rs" and ne: "rs \<noteq> []"
    and mn: "np_min (all_p_values ps) = Inr (Fin (Min (set rs)))"
    and mx: "np_max (all_p_values ps) = Inr (Fin (Max (set rs)))"
    and yl: "ylim ps = Inr (Fin (Min (set rs) - (Max (set rs) - Min (set rs)) * 0.1),
                            Fin (Max (set rs) + (Max (set rs) - Min (set rs)) * 0.1))"
    using ylim_Fin [OF assms] by blast
  have mem: "Fin x \<in> set (all_p_values ps) \<longleftrightarrow> x \<in> set rs" for x
    by (auto simp: rs)
  have "Min (set rs) \<in> set rs" "Max (set rs) \<in> set rs" using ne by simp_all
  then have a: "Fin (Min (set rs)) \<in> set (all_p_values ps)"
                "Fin (Max (set rs)) \<in> set (all_p_values ps)"
    by (simp_all add: mem)
  have b: "\<forall>x. Fin x \<in> set (all_p_values ps) \<longrightarrow> Min (set rs) \<le> x \<and> x \<le> Max (set rs)"
    by (simp add: mem)
  from mn mx a b yl show ?thesis by blast
qed

lemma curves_in_all_p_values:
  assumes "i < 200"
  shows "P_base ps ! i \<in> set (all_p_values ps)"
    and "P_endh ps ! i \<in> set (all_p_values ps)"
    and "P_dup ps ! i \<in> set (all_p_values ps)"
  using assms unfolding set_all_p_values by blast+

text \<open>
  Claim C2. For every valid parameter set, \<open>p_min\<close> and \<open>p_max\<close> are finite, are entries
  of the concatenation of the three curves, and bound every entry of it from below and
  from above; the limits handed to the plot are \<open>p_min - padding\<close> and
  \<open>p_max + padding\<close> with \<open>padding = (p_max - p_min) * 0.1\<close>; and at every index \<open>i\<close> of
  the grid each of the three curves lies between the two limits.
\<close>

theorem padded_limits:
  "valid ps \<Longrightarrow> i < 200 \<Longrightarrow>
   (\<exists>p_min p_max.
      np_min (P_base ps @ P_endh ps @ P_dup ps) = Inr (Fin p_min) \<and>
      np_max (P_base ps @ P_endh ps @ P_dup ps) = Inr (Fin p_max) \<and>
      Fin p_min \<in> set (P_base ps @ P_endh ps @ P_dup ps) \<and>
      Fin p_max \<in> set (P_base ps @ P_endh ps @ P_dup ps) \<and>
      (\<forall>x. Fin x \<in> set (P_base ps @ P_endh ps @ P_dup ps) \<longrightarrow> p_min \<le> x \<and> x \<le> p_max) \<and>
      ylim ps = Inr (Fin p_min - (Fin p_max - Fin p_min) * Fin 0.1,
                     Fin p_max + (Fin p_max - Fin p_min) * Fin 0.1) \<and>
      evaluate ps =
        Inr \<lparr>grid = F, curve_base = P_base ps, curve_endh = P_endh ps, curve_dup = P_dup ps,
             bounds = (Fin (p_min - (p_max - p_min) * 0.1), Fin (p_max + (p_max - p_min) * 0.1))\<rparr> \<and>
      np_le (Fin (p_min - (p_max - p_min) * 0.1)) (P_base ps ! i) \<and>
      np_le (P_base ps ! i) (Fin (p_max + (p_max - p_min) * 0.1)) \<and>
      np_le (Fin (p_min - (p_max - p_min) * 0.1)) (P_endh ps ! i) \<and>
      np_le (P_endh ps ! i) (Fin (p_max + (p_max - p_min) * 0.1)) \<and>
      np_le (Fin (p_min - (p_max - p_min) * 0.1)) (P_dup ps ! i) \<and>
      np_le (P_dup ps ! i) (Fin (p_max + (p_max - p_min) * 0.1)))"
proof -
  assume v: "valid ps" and i: "i < 200"
  have n: "N ps \<noteq> 0" using v by (rule valid_N)
  obtain lo hi where mn: "np_min (all_p_values ps) = Inr (Fin lo)"
    and mx: "np_max (all_p_values ps) = Inr (Fin hi)"
    and lo: "Fin lo \<in> set (all_p_values ps)" and hi: "Fin hi \<in> set (all_p_values ps)"
    and bd: "\<forall>x. Fin x \<in> set (all_p_values ps) \<longrightarrow> lo \<le> x \<and> x \<le> hi"
    and yl: "ylim ps = Inr (Fin (lo - (hi - lo) * 0.1), Fin (hi + (hi - lo) * 0.1))"
    using ylim_extremes [OF n] by blast
  have pad: "0 \<le> (hi - lo) * 0.1" using bd lo by simp
  have ev: "evaluate ps =
        Inr \<lparr>grid = F, curve_base = P_base ps, curve_endh = P_endh ps, curve_dup = P_dup ps,
             bounds = (Fin (lo - (hi - lo) * 0.1), Fin (hi + (hi - lo) * 0.1))\<rparr>"
    by (simp add: evaluate_def yl)
  have inside: "np_le (Fin (lo - (hi - lo) * 0.1)) y \<and> np_le y (Fin (hi + (hi - lo) * 0.1))"
    if y: "y \<in> set (all_p_values ps)" for y
  proof -
    obtain x where x: "y = Fin x" using all_p_values_finite [OF n y] by (cases y) auto
    have "lo \<le> x \<and> x \<le> hi" using bd y by (simp add: x)
    with pad have "lo - (hi - lo) * 0.1 \<le> x \<and> x \<le> hi + (hi - lo) * 0.1" by linarith
    then show ?thesis by (simp add: x)
  qed
  have yl': "ylim ps = Inr (Fin lo - (Fin hi - Fin lo) * Fin 0.1,
                           Fin hi + (Fin hi - Fin lo) * Fin 0.1)"
    by (simp add: yl)
  show ?thesis
    using mn mx lo hi bd yl' ev inside [OF curves_in_all_p_values(1) [OF i]]
      inside [OF curves_in_all_p_values(2) [OF i]] inside [OF curves_in_all_p_values(3) [OF i]]
    unfolding all_p_values_def by blast
qed

theorem padded_limits_witness:
  "valid slider_defaults \<and> (0::nat) < 200 \<and>
   (\<exists>lo hi. ylim slider_defaults = Inr (Fin lo, Fin hi) \<and>
      np_le (Fin lo) (P_endh slider_defaults ! 0) \<and> np_le (P_base slider_defaults ! 0) (Fin hi))"
proof -
  from padded_limits [OF valid_slider_defaults, of 0]
  obtain p_min p_max where
    "ylim slider_defaults = Inr (Fin p_min - (Fin p_max - Fin p_min) * Fin 0.1,
                     Fin p_max + (Fin p_max - Fin p_min) * Fin 0.1)"
    "np_le (Fin (p_min - (p_max - p_min) * 0.1)) (P_endh slider_defaults ! 0)"
    "np_le (P_base slider_defaults ! 0) (Fin (p_max + (p_max - p_min) * 0.1))"
    by auto
  then have "ylim slider_defaults = Inr (Fin (p_min - (p_max - p_min) * 0.1), Fin (p_max + (p_max - p_min) * 0.1)) \<and>
      np_le (Fin (p_min - (p_max - p_min) * 0.1)) (P_endh slider_defaults ! 0) \<and>
      np_le (P_base slider_defaults ! 0) (Fin (p_max + (p_max - p_min) * 0.1))"
    by simp
  then have "\<exists>lo hi. ylim slider_defaults = Inr (Fin lo, Fin hi) \<and>
      np_le (Fin lo) (P_endh slider_defaults ! 0) \<and> np_le (P_base slider_defaults ! 0) (Fin hi)"
    by blast
  with valid_slider_defaults show ?thesis by simp
qed

section \<open>Finiteness within the slider ranges\<close>

lemma total_cost_bounds:
  assumes "valid ps" and "0 \<le> g" and "g \<le> 1"
  shows "0 \<le> H ps + v ps * (1 - g) * real_of_int (N ps) \<and>
         H ps + v ps * (1 - g) * real_of_int (N ps) \<le> 550000000"
proof -
  have h: "0 \<le> H ps" "H ps \<le> 50000000" and w: "0 \<le> v ps" "v ps \<le> 50000"
    and n: "0 \<le> real_of_int (N ps)" "real_of_int (N ps) \<le> 10000"
    using assms(1) by (simp_all add: valid_def)
  have "v ps * (1 - g) \<le> 50000 * 1"
    using w assms(2,3) by (rule_tac mult_mono) simp_all
  then have a: "v ps * (1 - g) \<le> 50000" by simp
  have b: "0 \<le> v ps * (1 - g)" using w assms(3) by simp
  have "v ps * (1 - g) * real_of_int (N ps) \<le> 50000 * 10000"
    using a b n by (rule_tac mult_mono) simp_all
  moreover have "0 \<le> v ps * (1 - g) * real_of_int (N ps)" using b n by simp
  ultimately show ?thesis using h by simp
qed

lemma all_p_values_bounds:
  assumes "valid ps" and "Fin x \<in> set (all_p_values ps)"
  shows "- 50050001 \<le> x \<and> x \<le> 1"
proof -
  from assms(2) obtain i where i: "i < 200"
    and x: "Fin x = P_base ps ! i \<or> Fin x = P_endh ps ! i \<or> Fin x = P_dup ps ! i"
    unfolding set_all_p_values by blast
  from x show ?thesis
    using P_base_bounds [OF assms(1) i] P_endh_bounds [OF assms(1) i]
      P_dup_bounds [OF assms(1) i]
    by auto
qed

lemma ylim_bounds:
  assumes "valid ps"
  shows "\<exists>lo hi. ylim ps = Inr (Fin lo, Fin hi) \<and> - 55055002 \<le> lo \<and> lo \<le> hi \<and> hi \<le> 5005002"
proof -
  obtain lo hi where lo: "Fin lo \<in> set (all_p_values ps)" and hi: "Fin hi \<in> set (all_p_values ps)"
    and bd: "\<forall>x. Fin x \<in> set (all_p_values ps) \<longrightarrow> lo \<le> x \<and> x \<le> hi"
    and yl: "ylim ps = Inr (Fin (lo - (hi - lo) * 0.1), Fin (hi + (hi - lo) * 0.1))"
    using ylim_extremes [OF valid_N [OF assms]] by blast
  have "lo \<le> hi" using bd lo by blast
  moreover have "- 50050001 \<le> lo" "hi \<le> 1" "lo \<le> 1" "- 50050001 \<le> hi"
    using all_p_values_bounds [OF assms lo] all_p_values_bounds [OF assms hi] by simp_all
  ultimately have "- 55055002 \<le> lo - (hi - lo) * 0.1 \<and>
                   lo - (hi - lo) * 0.1 \<le> hi + (hi - lo) * 0.1 \<and>
                   hi + (hi - lo) * 0.1 \<le> 5005002"
    by argo
  with yl show ?thesis by blast
qed

text \<open>
  Claim C8. For every parameter set within the slider ranges and every index \<open>i\<close> of the
  grid: the divisor \<open>N\<close> is at least 1; the values of \<open>c\<close> and \<open>p\<close> at \<open>a_star\<close>, the
  argument of the exponential, the total cost \<open>C_op_F\<close>, its quotient by \<open>N\<close>, the three
  curve entries and the two axis limits are all finite, each within an explicit bound
  whose magnitude is below \<open>10\<^sup>9\<close>; and the pass returns its result without an error.
  Finite floats are read as real numbers here, so rounding is not modelled: the bounds
  show that every intermediate value stays far from the overflow threshold of 64-bit
  floats.
\<close>

theorem values_finite:
  "valid ps \<Longrightarrow> i < 200 \<Longrightarrow>
   N ps \<noteq> 0 \<and> 1 \<le> real_of_int (N ps) \<and>
   0 \<le> c ps (a_star ps) \<and> c ps (a_star ps) \<le> 500 \<and>
   - 100 \<le> - beta ps * a_star ps \<and> - beta ps * a_star ps \<le> 0 \<and>
   0 \<le> p ps (a_star ps) \<and> p ps (a_star ps) < 1 \<and>
   (\<exists>x. C_op_F ps (F ! i) = Fin x \<and> 0 \<le> x \<and> x \<le> 550000000) \<and>
   (\<exists>y. C_op_F ps (F ! i) / Fin (real_of_int (N ps)) = Fin y \<and> 0 \<le> y \<and> y \<le> 50050000) \<and>
   (\<exists>b. P_base ps ! i = Fin b \<and> - 500 \<le> b \<and> b \<le> 1) \<and>
   (\<exists>e. P_endh ps ! i = Fin e \<and> - 50050000 \<le> e \<and> e \<le> 1) \<and>
   (\<exists>d. P_dup ps ! i = Fin d \<and> - 50050001 \<le> d \<and> d \<le> 1) \<and>
   (\<exists>lo hi. ylim ps = Inr (Fin lo, Fin hi) \<and> - 55055002 \<le> lo \<and> lo \<le> hi \<and> hi \<le> 5005002 \<and>
      evaluate ps = Inr \<lparr>grid = F, curve_base = P_base ps, curve_endh = P_endh ps,
                          curve_dup = P_dup ps, bounds = (Fin lo, Fin hi)\<rparr>)"
proof -
  assume v: "valid ps" and i: "i < 200"
  have g: "0 \<le> real i / 199" "real i / 199 \<le> 1" using i by simp_all
  have n: "N ps \<noteq> 0" using v by (rule valid_N)
  have n1: "1 \<le> real_of_int (N ps)" using v by (simp add: valid_def)
  have nr: "real_of_int (N ps) \<noteq> 0" using n by simp
  have ab: "0 \<le> a_star ps" "a_star ps \<le> 10" "0 \<le> beta ps" "beta ps \<le> 10"
    using v by (simp_all add: valid_def)
  have "beta ps * a_star ps \<le> 10 * 10" using ab by (rule_tac mult_mono) simp_all
  moreover have "0 \<le> beta ps * a_star ps" using ab by simp
  ultimately have ex: "- 100 \<le> - beta ps * a_star ps \<and> - beta ps * a_star ps \<le> 0" by simp
  have tc: "\<exists>x. C_op_F ps (F ! i) = Fin x \<and> 0 \<le> x \<and> x \<le> 550000000"
    using total_cost_bounds [OF v g] by (simp add: F_nth [OF i] C_op_F_Fin)
  have po: "\<exists>y. C_op_F ps (F ! i) / Fin (real_of_int (N ps)) = Fin y \<and> 0 \<le> y \<and> y \<le> 50050000"
    using per_outlet_cost_bounds [OF v g] nr by (simp add: F_nth [OF i] C_op_F_Fin)
  obtain lo hi where yl: "ylim ps = Inr (Fin lo, Fin hi)"
    and yb: "- 55055002 \<le> lo" "lo \<le> hi" "hi \<le> 5005002"
    using ylim_bounds [OF v] by blast
  have ev: "evaluate ps = Inr \<lparr>grid = F, curve_base = P_base ps, curve_endh = P_endh ps,
                          curve_dup = P_dup ps, bounds = (Fin lo, Fin hi)\<rparr>"
    by (simp add: evaluate_def yl)
  from yl yb ev have lim: "\<exists>lo hi. ylim ps = Inr (Fin lo, Fin hi) \<and> - 55055002 \<le> lo \<and> lo \<le> hi \<and>
      hi \<le> 5005002 \<and>
      evaluate ps = Inr \<lparr>grid = F, curve_base = P_base ps, curve_endh = P_endh ps,
                          curve_dup = P_dup ps, bounds = (Fin lo, Fin hi)\<rparr>"
    by blast
  show ?thesis
    using n n1 c_bounds [OF v] ex p_bounds [OF v] tc po P_base_bounds [OF v i]
      P_endh_bounds [OF v i] P_dup_bounds [OF v i] lim
    by blast
qed

theorem values_finite_witness:
  "valid slider_defaults \<and> (0::nat) < 200 \<and>
   is_finite (C_op_F slider_defaults (F ! 0) / Fin (real_of_int (N slider_defaults))) \<and>
   is_finite (P_base slider_defaults ! 0) \<and> is_finite (P_endh slider_defaults ! 0) \<and>
   is_finite (P_dup slider_defaults ! 0) \<and>
   (\<exists>lo hi. ylim slider_defaults = Inr (Fin lo, Fin hi))"
  using values_finite [OF valid_slider_defaults, of 0] valid_slider_defaults
  by auto

section \<open>A zero divisor\<close>

























section \<open>The degenerate input\<close>








end
